theory Spec2Isabelle
  imports Complex_Main "HOL-Library.Sublist"
begin

section \<open>JavaScript strings\<close>

text \<open>
  A JavaScript string is modelled by the bytes of its UTF-8 text. The source only looks
  for ASCII digits, ASCII prefixes and suffixes and white space, and all of these are read
  off the bytes unambiguously; the lengths the source compares are lengths of digit
  strings, where bytes and UTF-16 code units coincide.
\<close>

text \<open>The character class \<open>\d\<close> of a regular expression without the unicode flag.\<close>

definition is_digit :: "char \<Rightarrow> bool" where
  "is_digit c = (c \<in> set ''0123456789'')"

text \<open>\<open>String.prototype.startsWith\<close> and \<open>String.prototype.endsWith\<close>.\<close>

definition startsWith :: "string \<Rightarrow> string \<Rightarrow> bool" where
  "startsWith s p = (take (length p) s = p)"

definition endsWith :: "string \<Rightarrow> string \<Rightarrow> bool" where
  "endsWith s p = (length p \<le> length s \<and> drop (length s - length p) s = p)"

text \<open>
  The white space and line terminators that \<open>String.prototype.trim\<close> removes, each as its
  UTF-8 bytes: U+0009 to U+000D, U+0020, U+00A0, U+1680, U+2000 to U+200A, U+2028, U+2029,
  U+202F, U+205F, U+3000 and U+FEFF.
\<close>

definition whitespace :: "string list" where
  "whitespace =
    [[CHR 0x09], [CHR 0x0A], [CHR 0x0B], [CHR 0x0C], [CHR 0x0D], [CHR 0x20],
     [CHR 0xC2, CHR 0xA0],
     [CHR 0xE1, CHR 0x9A, CHR 0x80],
     [CHR 0xE2, CHR 0x80, CHR 0x80], [CHR 0xE2, CHR 0x80, CHR 0x81],
     [CHR 0xE2, CHR 0x80, CHR 0x82], [CHR 0xE2, CHR 0x80, CHR 0x83],
     [CHR 0xE2, CHR 0x80, CHR 0x84], [CHR 0xE2, CHR 0x80, CHR 0x85],
     [CHR 0xE2, CHR 0x80, CHR 0x86], [CHR 0xE2, CHR 0x80, CHR 0x87],
     [CHR 0xE2, CHR 0x80, CHR 0x88], [CHR 0xE2, CHR 0x80, CHR 0x89],
     [CHR 0xE2, CHR 0x80, CHR 0x8A],
     [CHR 0xE2, CHR 0x80, CHR 0xA8], [CHR 0xE2, CHR 0x80, CHR 0xA9],
     [CHR 0xE2, CHR 0x80, CHR 0xAF],
     [CHR 0xE2, CHR 0x81, CHR 0x9F],
     [CHR 0xE3, CHR 0x80, CHR 0x80],
     [CHR 0xEF, CHR 0xBB, CHR 0xBF]]"

text \<open>Removes, from the front of \<open>s\<close>, every leading occurrence of one of the sequences \<open>ws\<close>.\<close>

function strip :: "string list \<Rightarrow> string \<Rightarrow> string" where
  "strip ws s =
     (case find (\<lambda>w. w \<noteq> [] \<and> prefix w s) ws of
        None \<Rightarrow> s
      | Some w \<Rightarrow> strip ws (drop (length w) s))"
  by pat_completeness auto
termination
proof (relation "measure (\<lambda>(ws, s). length s)")
  show "wf (measure (\<lambda>(ws, s). length s))" by simp
next
  fix ws :: "string list" and s w :: string
  assume "find (\<lambda>w. w \<noteq> [] \<and> prefix w s) ws = Some w"
  then have "w \<noteq> []" and "prefix w s"
    by (auto simp: find_Some_iff)
  then have "length s - length w < length s"
    by (cases w) (auto simp: prefix_def)
  then show "((ws, drop (length w) s), (ws, s)) \<in> measure (\<lambda>(ws, s). length s)"
    by simp
qed

definition trim :: "string \<Rightarrow> string" where
  "trim s = rev (strip (map rev whitespace) (rev (strip whitespace s)))"

declare strip.simps [simp del]

section \<open>Errors\<close>

text \<open>
  What the source throws, or lets the platform throw. \<open>Error m\<close> is \<open>new Error(m)\<close>; the
  source's messages are Russian and are given here by an English rendering. \<open>HttpError\<close> is
  the \<open>Error\<close> the source builds from a response that is not ok, with the status and the
  response text it puts into the message. \<open>NetworkError\<close> is the rejection of \<open>fetch\<close>,
  \<open>SyntaxError\<close> the one of \<open>response.json()\<close> or \<open>JSON.parse\<close>, \<open>TypeError\<close> a property
  read on \<open>null\<close>, and \<open>QuotaExceededError\<close> what \<open>localStorage.setItem\<close> throws when the storage
  takes no more.
\<close>

datatype error =
    Error string
  | HttpError nat string
  | NetworkError
  | SyntaxError
  | TypeError
  | QuotaExceededError

section \<open>auth.js: authentication by phone number\<close>

text \<open>A row of the table \<open>tenants\<close>; \<open>approved\<close> is a nullable boolean column.\<close>

record tenant =
  id_ten :: string
  phone_ten :: string
  name_ten :: string
  approved :: "bool option"

text \<open>\<open>/^\+7\d{10}$/.test(s)\<close>\<close>

definition phoneRegex_test :: "string \<Rightarrow> bool" where
  "phoneRegex_test s =
     (case s of
        a # b # ds \<Rightarrow> a = CHR ''+'' \<and> b = CHR ''7'' \<and> length ds = 10 \<and> list_all is_digit ds
      | _ \<Rightarrow> False)"

definition validatePhoneNumber :: "string \<Rightarrow> bool" where
  "validatePhoneNumber phone = (let trimmed = trim phone in phoneRegex_test trimmed)"

text \<open>The two locals of \<open>formatPhoneNumber\<close>: \<open>phone.replace(/\D/g, '')\<close> and its normal form.\<close>

definition digitsOnly :: "string \<Rightarrow> string" where
  "digitsOnly phone = filter is_digit phone"

definition normalized :: "string \<Rightarrow> string" where
  "normalized phone =
     (if startsWith (digitsOnly phone) ''8'' then ''7'' @ drop 1 (digitsOnly phone)
      else digitsOnly phone)"

definition formatPhoneNumber :: "string \<Rightarrow> error + string" where
  "formatPhoneNumber phone =
     (if length (normalized phone) \<noteq> 11 then Inl (Error ''The number must contain 11 digits'')
      else Inr (''+'' @ normalized phone))"

text \<open>
  What the request of \<open>checkPhone\<close> comes back with: \<open>fetch\<close> rejects; the response is not ok
  (status and text); the body is not JSON; the body is JSON \<open>null\<close>; the body is an array of
  rows.
\<close>

datatype tenants_reply =
    FetchRejected
  | NotOk nat string
  | BodyNotJson
  | BodyNull
  | BodyRows "tenant list"

text \<open>
  The request of \<open>checkPhone\<close> is \<open>GET /rest/v1/tenants?phone=eq.<phone>&select=*\<close>. The REST
  interface of the hosted database is not code of the repository; a backend that is
  reachable answers this request with the rows of the table whose \<open>phone\<close> column equals
  the given text, in full.
\<close>

definition tenants_phone_eq :: "tenant list \<Rightarrow> string \<Rightarrow> tenants_reply" where
  "tenants_phone_eq table p = BodyRows (filter (\<lambda>t. phone_ten t = p) table)"

text \<open>
  \<open>checkPhone\<close>: the result \<open>Inr None\<close> is \<open>null\<close>; every error is caught, logged and thrown
  again. The JavaScript test \<open>!tenant.approved\<close> holds for \<open>false\<close> and for \<open>null\<close>.
\<close>

definition checkPhone :: "string \<Rightarrow> tenants_reply \<Rightarrow> error + tenant option" where
  "checkPhone p reply =
     (if \<not> validatePhoneNumber p then Inl (Error ''Invalid phone number format'')
      else case reply of
        FetchRejected \<Rightarrow> Inl NetworkError
      | NotOk status errorText \<Rightarrow> Inl (HttpError status errorText)
      | BodyNotJson \<Rightarrow> Inl SyntaxError
      | BodyNull \<Rightarrow> Inr None
      | BodyRows data \<Rightarrow>
          (case data of
             [] \<Rightarrow> Inr None
           | t # _ \<Rightarrow> if approved t \<noteq> Some True then Inr None else Inr (Some t)))"

section \<open>JSON values and objects\<close>

text \<open>
  The values that travel as JSON. An object is the list of its properties, each key once,
  in the order in which JavaScript enumerates them and \<open>JSON.stringify\<close> writes them: the
  keys that are array indices first, in ascending numeric order, then the other keys in
  the order of their creation. A JSON number is the real it denotes; no arithmetic is
  done on these.
\<close>

datatype json =
    JNull
  | JBool bool
  | JNum real
  | JStr string
  | JArr "json list"
  | JObj "(string \<times> json) list"

type_synonym obj = "(string \<times> json) list"


text \<open>
  An array index is a canonical numeric string (digits, no leading zero unless it is
  \<open>0\<close> itself) whose value is below \<open>2^32 - 1\<close>.
\<close>

definition digit_value :: "char \<Rightarrow> nat" where
  "digit_value c = of_char c - 48"

definition index_value :: "string \<Rightarrow> nat" where
  "index_value s = foldl (\<lambda>n c. 10 * n + digit_value c) 0 s"

definition is_index :: "string \<Rightarrow> bool" where
  "is_index s =
     (s \<noteq> [] \<and> list_all is_digit s \<and> (hd s \<noteq> CHR ''0'' \<or> s = ''0'') \<and>
      index_value s < 2 ^ 32 - 1)"

text \<open>A new array index goes before the first key that is not a smaller array index.\<close>

fun insert_index :: "string \<Rightarrow> json \<Rightarrow> obj \<Rightarrow> obj" where
  "insert_index k v [] = [(k, v)]"
| "insert_index k v ((k', v') # rest) =
     (if is_index k' \<and> index_value k' < index_value k then (k', v') # insert_index k v rest
      else (k, v) # (k', v') # rest)"

text \<open>
  Assignment to a property: an existing key keeps its place; a new key that is an array
  index goes to its place among the indices; any other new key goes last.
\<close>

definition obj_set :: "string \<Rightarrow> json \<Rightarrow> obj \<Rightarrow> obj" where
  "obj_set k v ob =
     (if k \<in> fst ` set ob then map (\<lambda>(k', v'). if k' = k then (k', v) else (k', v')) ob
      else if is_index k then insert_index k v ob
      else ob @ [(k, v)])"

text \<open>The spread \<open>{...target, ...source}\<close>: the properties of \<open>source\<close> assigned in order.\<close>

definition spread :: "obj \<Rightarrow> obj \<Rightarrow> obj" where
  "spread target source = foldl (\<lambda>acc (k, v). obj_set k v acc) target source"

section \<open>JavaScript numbers\<close>

text \<open>
  A JavaScript number is a binary64 value: \<open>NaN\<close>, an infinity, or a finite value, given
  here by the real it denotes (the two zeros are one). Arithmetic rounds its exact result
  to the nearest value with 53 significant bits, ties to the even one; \<open>round_even\<close> rounds
  a real to an integer in this way, and \<open>round64\<close> rounds a real at the place of its 53rd
  significant bit.
\<close>

definition round_even :: "real \<Rightarrow> int" where
  "round_even q =
     (let f = \<lfloor>q\<rfloor>; r = q - of_int f
      in if r < 1 / 2 then f else if 1 / 2 < r then f + 1 else if even f then f else f + 1)"

definition round64 :: "real \<Rightarrow> real" where
  "round64 x =
     (if x = 0 then 0
      else let ulp = 2 powr (of_int \<lfloor>log 2 \<bar>x\<bar>\<rfloor> - 52)
           in sgn x * (of_int (round_even (\<bar>x\<bar> / ulp)) * ulp))"

datatype number = Finite real | Infinity | NegInfinity | NaN

text \<open>
  The subtraction \<open>a - b\<close>. A rounded difference of magnitude \<open>2^1024\<close> or more is an
  infinity. No case is needed for tiny results: a difference of two binary64 values
  that is smaller than the smallest normal one is a binary64 value itself and has fewer
  than 53 significant bits, so \<open>round64\<close> leaves it as it is.
\<close>

fun js_sub :: "number \<Rightarrow> number \<Rightarrow> number" where
  "js_sub (Finite a) (Finite b) =
     (let r = round64 (a - b)
      in if 2 ^ 1024 \<le> r then Infinity else if r \<le> - (2 ^ 1024) then NegInfinity else Finite r)"
| "js_sub NaN _ = NaN"
| "js_sub _ NaN = NaN"
| "js_sub Infinity Infinity = NaN"
| "js_sub NegInfinity NegInfinity = NaN"
| "js_sub Infinity _ = Infinity"
| "js_sub NegInfinity _ = NegInfinity"
| "js_sub (Finite a) Infinity = NegInfinity"
| "js_sub (Finite a) NegInfinity = Infinity"

text \<open>\<open>Math.abs\<close>\<close>

fun js_abs :: "number \<Rightarrow> number" where
  "js_abs (Finite a) = Finite \<bar>a\<bar>"
| "js_abs Infinity = Infinity"
| "js_abs NegInfinity = Infinity"
| "js_abs NaN = NaN"

text \<open>The comparison \<open>a < b\<close>, false whenever one side is \<open>NaN\<close>.\<close>

fun js_lt :: "number \<Rightarrow> number \<Rightarrow> bool" where
  "js_lt (Finite a) (Finite b) = (a < b)"
| "js_lt NaN _ = False"
| "js_lt _ NaN = False"
| "js_lt Infinity _ = False"
| "js_lt _ NegInfinity = False"
| "js_lt NegInfinity _ = True"
| "js_lt (Finite a) Infinity = True"

text \<open>Truthiness of a number: all but 0 and \<open>NaN\<close>.\<close>

definition number_truthy :: "number \<Rightarrow> bool" where
  "number_truthy n = (n \<noteq> NaN \<and> n \<noteq> Finite 0)"

section \<open>Pavilions\<close>

text \<open>
  Percentage coordinates of a pavilion on the floor plan; a property that is missing or
  \<open>null\<close> is \<open>None\<close>.
\<close>

record coords =
  coord_x :: "number option"
  coord_y :: "number option"

text \<open>
  A pavilion object, with the properties the modelled functions read; \<open>coordinates\<close> is
  \<open>None\<close> when the property is missing or \<open>null\<close>, \<open>discounts\<close> is \<open>JNull\<close> when it is.
\<close>

record pavilion =
  id_pav :: string
  tenant_id :: string
  pavilion_number :: string
  discounts :: json
  coordinates :: "coords option"

section \<open>floor-plan.js: the hit test\<close>

definition tolerance :: number where
  "tolerance = Finite 5"

text \<open>\<open>v || 0\<close> for a coordinate: 0 when the property is missing, \<open>null\<close>, 0 or \<open>NaN\<close>.\<close>

definition or_zero :: "number option \<Rightarrow> number" where
  "or_zero v = (case v of None \<Rightarrow> Finite 0 | Some n \<Rightarrow> if number_truthy n then n else Finite 0)"

text \<open>The loop of \<open>findPavilionAtPoint\<close> over \<open>floorPlanState.pavilionsList\<close>.\<close>

fun scan :: "number \<Rightarrow> number \<Rightarrow> pavilion list \<Rightarrow> pavilion option" where
  "scan xPercent yPercent [] = None"
| "scan xPercent yPercent (p # rest) =
     (case coordinates p of
        None \<Rightarrow> scan xPercent yPercent rest
      | Some c \<Rightarrow>
          (let px = or_zero (coord_x c);
               py = or_zero (coord_y c)
           in if js_lt (js_abs (js_sub px xPercent)) tolerance \<and>
                 js_lt (js_abs (js_sub py yPercent)) tolerance
              then Some p
              else scan xPercent yPercent rest))"

text \<open>\<open>None\<close> is the result \<open>null\<close>.\<close>

definition findPavilionAtPoint :: "pavilion list \<Rightarrow> number \<Rightarrow> number \<Rightarrow> pavilion option" where
  "findPavilionAtPoint pavilionsList xPercent yPercent =
     (if pavilionsList = [] then None else scan xPercent yPercent pavilionsList)"

section \<open>data.js: the cache in localStorage\<close>

definition CACHE_PREFIX :: string where
  "CACHE_PREFIX = ''aprashka_cache_''"

definition CACHE_TIMEOUT :: int where
  "CACHE_TIMEOUT = 60 * 60 * 1000"

text \<open>
  An item of \<open>localStorage\<close> is a text; the model keeps what \<open>getCacheData\<close> makes of it:
  the empty text; a text that \<open>JSON.parse\<close> rejects; the text \<open>null\<close>; or a text that parses
  to a value with the properties \<open>timestamp\<close> (a number of milliseconds, \<open>None\<close> when missing)
  and \<open>value\<close> (\<open>None\<close> when missing or \<open>null\<close>).
\<close>

datatype 'v item =
    EmptyText
  | Unparsable
  | ParsedNull
  | Entry "int option" "'v option"

type_synonym 'v storage = "string \<rightharpoonup> 'v item"

text \<open>
  \<open>getCacheData\<close>, given the storage and the reading of \<open>Date.now()\<close>; it returns the value
  (\<open>None\<close> for \<open>null\<close>) and the storage. The errors of \<open>JSON.parse\<close> and of reading a
  property of \<open>null\<close> are caught and give \<open>null\<close>. A timestamp 0 is falsy.
\<close>

definition getCacheData :: "'v storage \<Rightarrow> int \<Rightarrow> string \<Rightarrow> 'v option \<times> 'v storage" where
  "getCacheData ls date_now key =
     (let cacheKey = CACHE_PREFIX @ key in
      case ls cacheKey of
        None \<Rightarrow> (None, ls)
      | Some EmptyText \<Rightarrow> (None, ls)
      | Some Unparsable \<Rightarrow> (None, ls)
      | Some ParsedNull \<Rightarrow> (None, ls)
      | Some (Entry ts v) \<Rightarrow>
          (case ts of
             None \<Rightarrow> (v, ls)
           | Some t \<Rightarrow>
               if t \<noteq> 0 \<and> date_now - t > CACHE_TIMEOUT then (None, ls(cacheKey := None))
               else (v, ls)))"

text \<open>
  \<open>localStorage.setItem\<close>: it throws when the storage takes no more (the quota is used
  up, or the browser gives the page none); \<open>full\<close> says so.
\<close>

definition setItem :: "'v storage \<Rightarrow> bool \<Rightarrow> string \<Rightarrow> 'v item \<Rightarrow> error + 'v storage" where
  "setItem ls full k x = (if full then Inl QuotaExceededError else Inr (ls(k \<mapsto> x)))"

text \<open>\<open>setCacheData\<close>: the error of \<open>setItem\<close> is caught and logged, the storage stays as it was.\<close>

definition setCacheData ::
    "'v storage \<Rightarrow> bool \<Rightarrow> int \<Rightarrow> string \<Rightarrow> 'v option \<Rightarrow> 'v storage" where
  "setCacheData ls full date_now key v =
     (let cacheKey = CACHE_PREFIX @ key in
      case setItem ls full cacheKey (Entry (Some date_now) v) of
        Inl e \<Rightarrow> ls
      | Inr ls' \<Rightarrow> ls')"

definition clearCacheData :: "'v storage \<Rightarrow> string \<Rightarrow> 'v storage" where
  "clearCacheData ls key = (let cacheKey = CACHE_PREFIX @ key in ls(cacheKey := None))"

section \<open>data.js: requests to the backend\<close>

text \<open>An HTTP request of \<open>supabaseRequest\<close>: the method, the endpoint and, where sent, the body.\<close>

datatype request =
    GET string
  | POST string obj
  | PATCH string obj
  | DELETE string

text \<open>The requests that change the database.\<close>

fun is_write :: "request \<Rightarrow> bool" where
  "is_write (GET _) = False"
| "is_write (POST _ _) = True"
| "is_write (PATCH _ _) = True"
| "is_write (DELETE _) = True"

text \<open>
  How a request ends: \<open>fetch\<close> rejects; the response is not ok (status and text); the body
  is not JSON; the body is JSON \<open>null\<close>; the body is an array of rows.
\<close>

datatype 'r reply =
    Rejected
  | Failed nat string
  | NoJson
  | Null
  | Rows "'r list"

text \<open>
  The state the functions of data.js work on. \<open>currentTenant\<close> is
  \<open>window.Auth?.getCurrentTenant?.()\<close>, \<open>None\<close> when it is missing or \<open>null\<close>; \<open>pavilions\<close> is
  \<open>DataState.pavilions\<close>, \<open>None\<close> when \<open>null\<close> has been assigned to it; \<open>storage_full\<close> says
  that \<open>localStorage.setItem\<close> throws; \<open>date_now\<close> and \<open>date_iso\<close> are what \<open>Date.now()\<close> and
  \<open>new Date().toISOString()\<close> give when the clock is read next, and \<open>later\<close> holds the
  readings after that, in order; \<open>fresh_id\<close> is what \<open>generateId()\<close> gives; \<open>network\<close> holds
  the outcomes of the requests to come, in order (none left: the network is down);
  \<open>requests\<close> is the log of the requests sent so far.
\<close>

record world =
  currentTenant :: "tenant option"
  pavilions :: "pavilion list option"
  localStorage :: "pavilion list storage"
  storage_full :: bool
  date_now :: int
  date_iso :: string
  later :: "(int \<times> string) list"
  fresh_id :: string
  network :: "pavilion reply list"
  requests :: "request list"

text \<open>
  The clock moves on after it has been read: the next reading is the first of \<open>later\<close>
  (which may repeat the last one), and the same again when none is left.
\<close>

definition tick :: "world \<Rightarrow> world" where
  "tick w =
     (case later w of
        [] \<Rightarrow> w
      | (n, i) # rest \<Rightarrow> w\<lparr>date_now := n, date_iso := i, later := rest\<rparr>)"

text \<open>
  \<open>supabaseRequest\<close>: sends the request and returns the parsed body, \<open>None\<close> for \<open>null\<close>;
  a \<open>DELETE\<close> returns \<open>null\<close> without reading the body.
\<close>

definition supabaseRequest :: "world \<Rightarrow> request \<Rightarrow> (error + pavilion list option) \<times> world" where
  "supabaseRequest w rq =
     (let w' = w\<lparr>requests := requests w @ [rq], network := tl (network w)\<rparr> in
      case network w of
        [] \<Rightarrow> (Inl NetworkError, w')
      | Rejected # _ \<Rightarrow> (Inl NetworkError, w')
      | Failed status errorData # _ \<Rightarrow> (Inl (HttpError status errorData), w')
      | r # _ \<Rightarrow>
          (case rq of
             DELETE _ \<Rightarrow> (Inr None, w')
           | _ \<Rightarrow>
               (case r of
                  Rows rows \<Rightarrow> (Inr (Some rows), w')
                | Null \<Rightarrow> (Inr None, w')
                | _ \<Rightarrow> (Inl SyntaxError, w'))))"

section \<open>data.js: pavilions\<close>

definition PAVILIONS :: string where
  "PAVILIONS = ''pavilions''"

text \<open>\<open>Array.prototype.findIndex\<close>, with \<open>None\<close> for -1.\<close>

fun findIndex :: "('a \<Rightarrow> bool) \<Rightarrow> 'a list \<Rightarrow> nat option" where
  "findIndex P [] = None"
| "findIndex P (a # as) =
     (if P a then Some 0 else case findIndex P as of None \<Rightarrow> None | Some i \<Rightarrow> Some (Suc i))"

text \<open>
  The \<open>try\<close> block of \<open>getAllPavilions\<close>. \<open>getCacheData\<close> and \<open>setCacheData\<close> read the clock
  one after the other. Reading \<open>response.length\<close> of a \<open>null\<close> response, for the log, is a
  \<open>TypeError\<close>.
\<close>

definition getAllPavilions_try :: "world \<Rightarrow> (error + pavilion list option) \<times> world" where
  "getAllPavilions_try w =
     (case getCacheData (localStorage w) (date_now w) ''pavilions'' of
        (Some cachedData, ls) \<Rightarrow>
          (Inr (Some cachedData), (tick w)\<lparr>localStorage := ls, pavilions := Some cachedData\<rparr>)
      | (None, ls) \<Rightarrow>
          (case supabaseRequest ((tick w)\<lparr>localStorage := ls\<rparr>)
                  (GET (''/rest/v1/'' @ PAVILIONS @ ''?select=*'')) of
             (Inl e, w1) \<Rightarrow> (Inl e, w1)
           | (Inr response, w1) \<Rightarrow>
               (let w2 = (tick w1)\<lparr>pavilions := response,
                            localStorage :=
                              setCacheData (localStorage w1) (storage_full w1) (date_now w1)
                                ''pavilions'' response\<rparr>
                in case response of
                     None \<Rightarrow> (Inl TypeError, w2)
                   | Some rows \<Rightarrow> (Inr (Some rows), w2))))"

text \<open>\<open>getAllPavilions\<close>: the \<open>catch\<close> returns \<open>DataState.pavilions\<close>.\<close>

definition getAllPavilions :: "world \<Rightarrow> (error + pavilion list option) \<times> world" where
  "getAllPavilions w =
     (case getAllPavilions_try w of
        (Inl e, w') \<Rightarrow> (Inr (pavilions w'), w')
      | (Inr r, w') \<Rightarrow> (Inr r, w'))"

text \<open>
  The \<open>try\<close> block of \<open>getPavilionById\<close>: the in-memory list first (\<open>find\<close> on \<open>null\<close> is a
  \<open>TypeError\<close>), then the backend. \<open>Inr None\<close> is \<open>null\<close>.
\<close>

definition getPavilionById_try :: "world \<Rightarrow> string \<Rightarrow> (error + pavilion option) \<times> world" where
  "getPavilionById_try w pid =
     (case pavilions w of
        None \<Rightarrow> (Inl TypeError, w)
      | Some ps \<Rightarrow>
          (case find (\<lambda>p. id_pav p = pid) ps of
             Some p \<Rightarrow> (Inr (Some p), w)
           | None \<Rightarrow>
               (case supabaseRequest w
                       (GET (''/rest/v1/'' @ PAVILIONS @ ''?id=eq.'' @ pid @ ''&select=*'')) of
                  (Inl e, w1) \<Rightarrow> (Inl e, w1)
                | (Inr (Some (r # _)), w1) \<Rightarrow> (Inr (Some r), w1)
                | (Inr _, w1) \<Rightarrow> (Inr None, w1))))"

text \<open>\<open>getPavilionById\<close>: the \<open>catch\<close> returns \<open>null\<close>, so the function never throws.\<close>

definition getPavilionById :: "world \<Rightarrow> string \<Rightarrow> pavilion option \<times> world" where
  "getPavilionById w pid =
     (case getPavilionById_try w pid of
        (Inl e, w') \<Rightarrow> (None, w')
      | (Inr r, w') \<Rightarrow> (r, w'))"

text \<open>
  \<open>updatePavilion\<close>. Every error is caught, logged and thrown again. The clock is read
  for \<open>updated_at\<close> before the request. After the request, \<open>findIndex\<close> on a
  \<open>DataState.pavilions\<close> that is \<open>null\<close> is a \<open>TypeError\<close>.
\<close>

definition updatePavilion :: "world \<Rightarrow> string \<Rightarrow> obj \<Rightarrow> (error + pavilion) \<times> world" where
  "updatePavilion w pid data =
     (case currentTenant w of
        None \<Rightarrow> (Inl (Error ''Authorization is required to update a pavilion''), w)
      | Some tenant \<Rightarrow>
          (case getPavilionById w pid of
             (None, w1) \<Rightarrow> (Inl (Error ''Pavilion not found''), w1)
           | (Some p, w1) \<Rightarrow>
               if tenant_id p \<noteq> id_ten tenant
               then (Inl (Error ''No rights to edit this pavilion''), w1)
               else
                 (let updateData = obj_set ''updated_at'' (JStr (date_iso w1)) (spread [] data) in
                  case supabaseRequest (tick w1)
                         (PATCH (''/rest/v1/'' @ PAVILIONS @ ''?id=eq.'' @ pid) updateData) of
                    (Inl e, w2) \<Rightarrow> (Inl e, w2)
                  | (Inr (Some (r # _)), w2) \<Rightarrow>
                      (case pavilions w2 of
                         None \<Rightarrow> (Inl TypeError, w2)
                       | Some ps \<Rightarrow>
                           (let ps' = (case findIndex (\<lambda>p. id_pav p = pid) ps of
                                         None \<Rightarrow> ps
                                       | Some index \<Rightarrow> ps[index := r])
                            in (Inr r,
                                w2\<lparr>pavilions := Some ps',
                                   localStorage := clearCacheData (localStorage w2) ''pavilions''\<rparr>)))
                  | (Inr _, w2) \<Rightarrow> (Inl (Error ''Error while updating the pavilion''), w2))))"

text \<open>\<open>deletePavilion\<close>; \<open>filter\<close> on a \<open>DataState.pavilions\<close> that is \<open>null\<close> is a \<open>TypeError\<close>.\<close>

definition deletePavilion :: "world \<Rightarrow> string \<Rightarrow> (error + bool) \<times> world" where
  "deletePavilion w pid =
     (case currentTenant w of
        None \<Rightarrow> (Inl (Error ''Authorization is required to delete a pavilion''), w)
      | Some tenant \<Rightarrow>
          (case getPavilionById w pid of
             (None, w1) \<Rightarrow> (Inl (Error ''Pavilion not found''), w1)
           | (Some p, w1) \<Rightarrow>
               if tenant_id p \<noteq> id_ten tenant
               then (Inl (Error ''No rights to delete this pavilion''), w1)
               else
                 (case supabaseRequest w1
                         (DELETE (''/rest/v1/'' @ PAVILIONS @ ''?id=eq.'' @ pid)) of
                    (Inl e, w2) \<Rightarrow> (Inl e, w2)
                  | (Inr _, w2) \<Rightarrow>
                      (case pavilions w2 of
                         None \<Rightarrow> (Inl TypeError, w2)
                       | Some ps \<Rightarrow>
                           (Inr True,
                            w2\<lparr>pavilions := Some (filter (\<lambda>p. id_pav p \<noteq> pid) ps),
                               localStorage := clearCacheData (localStorage w2) ''pavilions''\<rparr>)))))"

section \<open>data.js: discounts\<close>







section \<open>sw.js: the service worker\<close>

definition CACHE_VERSION :: string where
  "CACHE_VERSION = ''v1''"

definition CACHE_NAME :: string where
  "CACHE_NAME = ''apra-shka-'' @ CACHE_VERSION"

definition CACHEABLE_EXTENSIONS :: "string list" where
  "CACHEABLE_EXTENSIONS =
     [''.js'', ''.css'', ''.html'', ''.json'', ''.svg'', ''.png'', ''.jpg'', ''.jpeg'', ''.gif'',
      ''.webp'', ''.woff'', ''.woff2'', ''.ttf'']"

text \<open>A request, with the path of its URL as \<open>new URL(request.url).pathname\<close> gives it.\<close>

record sw_request =
  req_method :: string
  req_url :: string
  req_pathname :: string

record response =
  resp_status :: nat
  resp_statusText :: string
  resp_body :: string

text \<open>A cache maps the URL of a request to the response stored for it; \<open>caches\<close> is the
  list of the named caches, in the order \<open>caches.keys()\<close> gives.\<close>

type_synonym cache = "string \<rightharpoonup> response"

type_synonym cache_storage = "(string \<times> cache) list"

text \<open>\<open>caches.delete(name)\<close>\<close>

definition caches_delete :: "string \<Rightarrow> cache_storage \<Rightarrow> cache_storage" where
  "caches_delete cacheName cs = filter (\<lambda>(n, c). n \<noteq> cacheName) cs"

definition isCacheStale :: "string \<Rightarrow> bool" where
  "isCacheStale cacheName = (startsWith cacheName ''apra-shka-'' \<and> cacheName \<noteq> CACHE_NAME)"

text \<open>The \<open>activate\<close> listener: the stale names among \<open>caches.keys()\<close>, each deleted.\<close>

definition activate :: "cache_storage \<Rightarrow> cache_storage" where
  "activate cs = fold caches_delete (filter isCacheStale (map fst cs)) cs"

text \<open>\<open>caches.match(request)\<close>: the first cache, in order, that holds a response.\<close>

fun caches_match :: "cache_storage \<Rightarrow> sw_request \<Rightarrow> response option" where
  "caches_match [] rq = None"
| "caches_match ((n, c) # cs) rq =
     (case c (req_url rq) of Some r \<Rightarrow> Some r | None \<Rightarrow> caches_match cs rq)"

text \<open>\<open>caches.open(name)\<close> creates the cache when there is none of this name.\<close>

definition caches_open :: "string \<Rightarrow> cache_storage \<Rightarrow> cache_storage" where
  "caches_open cacheName cs =
     (if cacheName \<in> fst ` set cs then cs else cs @ [(cacheName, Map.empty)])"

text \<open>\<open>cache.put(request, response)\<close> on the cache of the given name.\<close>

definition cache_put :: "string \<Rightarrow> sw_request \<Rightarrow> response \<Rightarrow> cache_storage \<Rightarrow> cache_storage" where
  "cache_put cacheName rq r cs =
     map (\<lambda>(n, c). if n = cacheName then (n, c(req_url rq \<mapsto> r)) else (n, c)) cs"

text \<open>The outcome of \<open>fetch(request)\<close>: a response, or a rejection.\<close>

datatype fetch_outcome = Responds response | Rejects

text \<open>The state of the worker: the caches, and the log of the requests sent to the network.\<close>

record sw_state =
  caches :: cache_storage
  fetched :: "sw_request list"

text \<open>What the \<open>fetch\<close> listener does with a request.\<close>

datatype strategy = NotHandled | CacheFirst | NetworkFirst

definition isStaticAsset :: "sw_request \<Rightarrow> bool" where
  "isStaticAsset rq = list_ex (\<lambda>ext. endsWith (req_pathname rq) ext) CACHEABLE_EXTENSIONS"

definition fetch_listener :: "sw_request \<Rightarrow> strategy" where
  "fetch_listener rq =
     (if req_method rq \<noteq> ''GET'' then NotHandled
      else if isStaticAsset rq then CacheFirst
      else NetworkFirst)"

definition offline_response :: response where
  "offline_response =
     \<lparr>resp_status = 503, resp_statusText = ''Service Unavailable'',
      resp_body = ''No connection and no data in the cache''\<rparr>"

text \<open>
  \<open>cacheFirstStrategy\<close>, given what the network does with the request. The \<open>catch\<close> looks
  into the caches again and falls back to the response 503.
\<close>

definition cacheFirstStrategy ::
    "sw_state \<Rightarrow> (sw_request \<Rightarrow> fetch_outcome) \<Rightarrow> sw_request \<Rightarrow> response \<times> sw_state" where
  "cacheFirstStrategy st net rq =
     (case caches_match (caches st) rq of
        Some cachedResponse \<Rightarrow> (cachedResponse, st)
      | None \<Rightarrow>
          (let st1 = st\<lparr>fetched := fetched st @ [rq]\<rparr> in
           case net rq of
             Responds networkResponse \<Rightarrow>
               if resp_status networkResponse = 200
               then (networkResponse,
                     st1\<lparr>caches := cache_put CACHE_NAME rq networkResponse
                                       (caches_open CACHE_NAME (caches st1))\<rparr>)
               else (networkResponse, st1)
           | Rejects \<Rightarrow>
               (case caches_match (caches st1) rq of
                  Some cachedResponse \<Rightarrow> (cachedResponse, st1)
                | None \<Rightarrow> (offline_response, st1))))"

section \<open>Predicates and inputs used in the statements\<close>

text \<open>
  The finite value the hit test compares for a stored coordinate: the coordinate itself;
  0 when it is missing, \<open>null\<close> or \<open>NaN\<close>; none when it is an infinity.
\<close>

definition coordinate_read :: "number option \<Rightarrow> real option" where
  "coordinate_read v =
     (case v of
        None \<Rightarrow> Some 0
      | Some (Finite u) \<Rightarrow> Some u
      | Some NaN \<Rightarrow> Some 0
      | Some _ \<Rightarrow> None)"

text \<open>
  A pavilion lies within the tolerance of a click when it has coordinates, the click is
  a pair of finite numbers, and both exact differences between the values compared and
  the click's are below \<open>5 - 2^-51\<close> in absolute value. This bound is where the rounded
  difference that the source computes falls below 5: a difference in between rounds to 5.
\<close>

definition within_tolerance :: "pavilion \<Rightarrow> number \<Rightarrow> number \<Rightarrow> bool" where
  "within_tolerance p clickX clickY =
     (case coordinates p of
        None \<Rightarrow> False
      | Some c \<Rightarrow>
          (case (coordinate_read (coord_x c), coordinate_read (coord_y c), clickX, clickY) of
             (Some u, Some v, Finite a, Finite b) \<Rightarrow>
               \<bar>u - a\<bar> < 5 - 1 / 2 ^ 51 \<and> \<bar>v - b\<bar> < 5 - 1 / 2 ^ 51
           | _ \<Rightarrow> False))"

text \<open>Two pavilions of one tenant, at (4, 4) and at (0, 0); one at (5, 0); and one whose
  coordinates have no \<open>x\<close>.\<close>

definition pavA :: pavilion where
  "pavA = \<lparr>id_pav = ''a'', tenant_id = ''t1'', pavilion_number = ''A-1'', discounts = JArr [],
           coordinates = Some \<lparr>coord_x = Some (Finite 4), coord_y = Some (Finite 4)\<rparr>\<rparr>"

definition pavB :: pavilion where
  "pavB = \<lparr>id_pav = ''b'', tenant_id = ''t1'', pavilion_number = ''B-2'', discounts = JArr [],
           coordinates = Some \<lparr>coord_x = Some (Finite 0), coord_y = Some (Finite 0)\<rparr>\<rparr>"

definition pavEdge :: pavilion where
  "pavEdge = \<lparr>id_pav = ''e'', tenant_id = ''t1'', pavilion_number = ''E-5'', discounts = JArr [],
           coordinates = Some \<lparr>coord_x = Some (Finite 5), coord_y = Some (Finite 0)\<rparr>\<rparr>"

definition pavNoX :: pavilion where
  "pavNoX = \<lparr>id_pav = ''n'', tenant_id = ''t1'', pavilion_number = ''N-6'', discounts = JArr [],
           coordinates = Some \<lparr>coord_x = None, coord_y = Some (Finite 3)\<rparr>\<rparr>"

text \<open>An approved tenant.\<close>

definition tenantA :: tenant where
  "tenantA = \<lparr>id_ten = ''t1'', phone_ten = ''+79123456789'', name_ten = ''Anna'',
              approved = Some True\<rparr>"

text \<open>A request for a script, and a response with status 200.\<close>

definition appJs :: sw_request where
  "appJs = \<lparr>req_method = ''GET'', req_url = ''https://apra.example/js/map.js'',
            req_pathname = ''/js/map.js''\<rparr>"

definition okResponse :: response where
  "okResponse = \<lparr>resp_status = 200, resp_statusText = ''OK'', resp_body = ''code''\<rparr>"

text \<open>The requests sent so far that change the database.\<close>

definition writes :: "world \<Rightarrow> request list" where
  "writes w = filter is_write (requests w)"

text \<open>
  One of the three checks of \<open>updatePavilion\<close> and \<open>deletePavilion\<close> fails: no tenant is
  authenticated, \<open>getPavilionById\<close> finds no pavilion (it gives \<open>null\<close>), or the pavilion it
  finds belongs to another tenant.
\<close>

definition refused :: "world \<Rightarrow> string \<Rightarrow> bool" where
  "refused w pid =
     (currentTenant w = None \<or> fst (getPavilionById w pid) = None \<or>
      (\<exists>t p. currentTenant w = Some t \<and> fst (getPavilionById w pid) = Some p \<and>
             tenant_id p \<noteq> id_ten t))"

text \<open>The next request fails: the network is down, the response is not ok, or its body
  is not JSON.\<close>

definition request_fails :: "world \<Rightarrow> bool" where
  "request_fails w =
     (case network w of [] \<Rightarrow> True | Rows _ # _ \<Rightarrow> False | Null # _ \<Rightarrow> False | _ \<Rightarrow> True)"

text \<open>Another tenant, and a state in which the first tenant is signed in, both pavilions
  are in memory, the cache is empty, the storage takes writes, the clock has one more
  reading and the network is down.\<close>

definition tenantB :: tenant where
  "tenantB = \<lparr>id_ten = ''t2'', phone_ten = ''+79990000000'', name_ten = ''Boris'',
              approved = Some True\<rparr>"

definition world0 :: world where
  "world0 =
     \<lparr>currentTenant = Some tenantA, pavilions = Some [pavA, pavB], localStorage = Map.empty,
      storage_full = False,
      date_now = 1700000000000, date_iso = ''2023-11-14T22:13:20.000Z'',
      later = [(1700000000250, ''2023-11-14T22:13:20.250Z'')],
      fresh_id = ''1700000000000_k3j9x0q1z'', network = [], requests = []\<rparr>"








section \<open>Phone numbers\<close>

lemma strip_keeps:
  assumes "\<forall>w\<in>set ws. w \<noteq> [] \<longrightarrow> hd w \<noteq> c"
  shows "strip ws (c # cs) = c # cs"
proof -
  have "\<not> (w \<noteq> [] \<and> prefix w (c # cs))" if "w \<in> set ws" for w
    using assms that by (cases w) auto
  then have "find (\<lambda>w. w \<noteq> [] \<and> prefix w (c # cs)) ws = None"
    by (simp add: find_None_iff)
  then show ?thesis by (subst strip.simps) simp
qed

lemma not_ws_plus: "\<forall>w\<in>set whitespace. w \<noteq> [] \<longrightarrow> hd w \<noteq> CHR ''+''"
  by (simp add: whitespace_def)

lemma not_ws_digit: "is_digit c \<Longrightarrow> \<forall>w\<in>set (map rev whitespace). w \<noteq> [] \<longrightarrow> hd w \<noteq> c"
  by (auto simp: whitespace_def is_digit_def)

text \<open>A plus sign followed by digits has no white space at either end.\<close>

lemma trim_plus_digits:
  assumes "ds \<noteq> []" "list_all is_digit ds"
  shows "trim (CHR ''+'' # ds) = CHR ''+'' # ds"
proof -
  have a: "strip whitespace (CHR ''+'' # ds) = CHR ''+'' # ds"
    by (rule strip_keeps [OF not_ws_plus])
  obtain bs d where ds: "ds = bs @ [d]"
    using assms(1) by (cases ds rule: rev_cases) auto
  then have "is_digit d" using assms(2) by simp
  have "rev (CHR ''+'' # ds) = d # rev bs @ [CHR ''+'']" by (simp add: ds)
  then have "strip (map rev whitespace) (rev (CHR ''+'' # ds)) = rev (CHR ''+'' # ds)"
    using strip_keeps [OF not_ws_digit [OF \<open>is_digit d\<close>]] by simp
  then show ?thesis by (simp add: trim_def a)
qed

lemma validate_plus:
  assumes "length ds = 11" "list_all is_digit ds"
  shows "validatePhoneNumber (CHR ''+'' # ds) = startsWith ds ''7''"
proof -
  have "ds \<noteq> []" using assms(1) by auto
  then have t: "trim (CHR ''+'' # ds) = CHR ''+'' # ds"
    using assms(2) trim_plus_digits by blast
  obtain d ds' where ds: "ds = d # ds'" using \<open>ds \<noteq> []\<close> by (cases ds) auto
  show ?thesis using assms t unfolding ds
    by (simp add: validatePhoneNumber_def phoneRegex_test_def startsWith_def)
qed

lemma digits_normalized: "list_all is_digit (normalized p)"
  by (auto simp: normalized_def digitsOnly_def list_all_iff is_digit_def dest: in_set_dropD)

lemma length_normalized: "length (normalized p) = length (digitsOnly p)"
  by (cases "digitsOnly p") (auto simp: normalized_def startsWith_def)

text \<open>
  Claim C9. \<open>formatPhoneNumber\<close> throws exactly when the digits of the input do not number
  11 (replacing a leading 8 by 7 keeps their number). Otherwise it returns a plus sign
  followed by the normalized digits, which are 11 digits, and \<open>validatePhoneNumber\<close>
  accepts this result if and only if the normalized digits begin with 7.
\<close>

theorem formatPhoneNumber_spec:
  "(isl (formatPhoneNumber p) \<longleftrightarrow> length (filter is_digit p) \<noteq> 11) \<and>
   length (normalized p) = length (filter is_digit p) \<and>
   (\<forall>r. formatPhoneNumber p = Inr r \<longrightarrow>
      r = CHR ''+'' # normalized p \<and> length (normalized p) = 11 \<and>
      list_all is_digit (normalized p) \<and>
      (validatePhoneNumber r \<longleftrightarrow> startsWith (normalized p) ''7''))"
  using length_normalized [of p] digits_normalized [of p] validate_plus [of "normalized p"]
  by (auto simp: formatPhoneNumber_def digitsOnly_def)

theorem formatPhoneNumber_spec_witness:
  "formatPhoneNumber ''8 (912) 345-67-89'' = Inr ''+79123456789'' \<and>
   validatePhoneNumber ''+79123456789''"
  using formatPhoneNumber_spec [of "''8 (912) 345-67-89''"]
  by (simp add: formatPhoneNumber_def normalized_def digitsOnly_def is_digit_def startsWith_def)

section \<open>The whitelist check\<close>

text \<open>
  Claim C1, as stated, fails: it promises \<open>null\<close> for every phone string that no row
  matches. For a string that is not of the form \<open>+7XXXXXXXXXX\<close>, such as \<open>123\<close> with an
  empty table, \<open>checkPhone\<close> throws instead; it also throws when the response is not ok.
\<close>

theorem checkPhone_throws:
  "tenants_phone_eq [] ''123'' = BodyRows [] \<and>
   checkPhone ''123'' (tenants_phone_eq [] ''123'') = Inl (Error ''Invalid phone number format'') \<and>
   checkPhone ''+79123456789'' (NotOk 500 ''down'') = Inl (HttpError 500 ''down'')"
  by code_simp

lemma filter_distinct_key:
  assumes "distinct (map f xs)" "filter (\<lambda>t. f t = k) xs = a # as"
  shows "as = [] \<and> (\<forall>t \<in> set xs. f t = k \<longrightarrow> t = a)"
proof -
  have "distinct (map f (filter (\<lambda>t. f t = k) xs))"
    using assms(1) by (simp add: distinct_map_filter)
  then have d: "distinct (map f (a # as))" by (simp add: assms(2))
  have s: "set (a # as) = {t \<in> set xs. f t = k}"
    using assms(2) set_filter [of "\<lambda>t. f t = k" xs] by simp
  have all: "\<forall>t \<in> set (a # as). f t = k"
    unfolding s by simp
  have "as = []"
  proof (cases as)
    case (Cons b bs)
    then have "f a = f b" using all by simp
    then show ?thesis using d Cons by simp
  qed simp
  moreover have "\<forall>t \<in> set xs. f t = k \<longrightarrow> t \<in> set (a # as)"
    unfolding s by simp
  ultimately show ?thesis by simp
qed

text \<open>
  Claim C1, amended. For a phone string that is not of the form \<open>+7XXXXXXXXXX\<close> (white
  space at the ends aside) \<open>checkPhone\<close> throws. For a phone string of this form it throws
  when the request fails (\<open>fetch\<close> rejects, the response is not ok, or its body is not
  JSON) and returns \<open>null\<close> for a body \<open>null\<close>; and for a table whose phone numbers are
  unique (the column is declared so) and a backend that answers the query with the
  matching rows, it does not throw, returns a tenant exactly when the table has a row
  with this phone number and \<open>approved\<close> true, that row being the result, and returns
  \<open>null\<close> otherwise.
\<close>

theorem checkPhone_whitelist:
  "(\<not> validatePhoneNumber p \<longrightarrow> checkPhone p reply = Inl (Error ''Invalid phone number format'')) \<and>
   (validatePhoneNumber p \<longrightarrow>
      checkPhone p FetchRejected = Inl NetworkError \<and>
      (\<forall>status errorText. checkPhone p (NotOk status errorText) = Inl (HttpError status errorText)) \<and>
      checkPhone p BodyNotJson = Inl SyntaxError \<and>
      checkPhone p BodyNull = Inr None) \<and>
   (validatePhoneNumber p \<and> distinct (map phone_ten table) \<longrightarrow>
      (\<exists>r. checkPhone p (tenants_phone_eq table p) = Inr r \<and>
           (\<forall>t. r = Some t \<longleftrightarrow> t \<in> set table \<and> phone_ten t = p \<and> approved t = Some True)))"
proof (intro conjI impI)
  assume "\<not> validatePhoneNumber p"
  then show "checkPhone p reply = Inl (Error ''Invalid phone number format'')"
    by (simp add: checkPhone_def)
next
  assume "validatePhoneNumber p"
  then show "checkPhone p FetchRejected = Inl NetworkError"
    and "\<forall>status errorText. checkPhone p (NotOk status errorText) = Inl (HttpError status errorText)"
    and "checkPhone p BodyNotJson = Inl SyntaxError"
    and "checkPhone p BodyNull = Inr None"
    by (simp_all add: checkPhone_def)
next
  assume a: "validatePhoneNumber p \<and> distinct (map phone_ten table)"
  show "\<exists>r. checkPhone p (tenants_phone_eq table p) = Inr r \<and>
           (\<forall>t. r = Some t \<longleftrightarrow> t \<in> set table \<and> phone_ten t = p \<and> approved t = Some True)"
  proof (cases "filter (\<lambda>t. phone_ten t = p) table")
    case Nil
    then have "\<forall>t \<in> set table. phone_ten t \<noteq> p"
      by (simp add: filter_empty_conv)
    then show ?thesis using a Nil
      by (auto simp: checkPhone_def tenants_phone_eq_def)
  next
    case (Cons u us)
    from filter_distinct_key [OF _ Cons] a
    have only: "\<forall>t \<in> set table. phone_ten t = p \<longrightarrow> t = u" by blast
    have "u \<in> set (filter (\<lambda>t. phone_ten t = p) table)"
      by (simp add: Cons)
    then have u: "u \<in> set table \<and> phone_ten u = p"
      by simp
    show ?thesis using a Cons only u
      by (auto simp: checkPhone_def tenants_phone_eq_def)
  qed
qed

theorem checkPhone_whitelist_witness:
  "validatePhoneNumber ''+79123456789'' \<and> distinct (map phone_ten [tenantA]) \<and>
   checkPhone ''+79123456789'' (tenants_phone_eq [tenantA] ''+79123456789'') = Inr (Some tenantA)"
proof -
  have v: "validatePhoneNumber ''+79123456789''" by code_simp
  have d: "distinct (map phone_ten [tenantA])" by simp
  from checkPhone_whitelist [of "''+79123456789''" FetchRejected "[tenantA]"] v d
  obtain r where r: "checkPhone ''+79123456789'' (tenants_phone_eq [tenantA] ''+79123456789'') = Inr r"
    and iff: "\<forall>t. r = Some t \<longleftrightarrow> t \<in> set [tenantA] \<and> phone_ten t = ''+79123456789'' \<and> approved t = Some True"
    by blast
  have "r = Some tenantA" using iff by (simp add: tenantA_def)
  then show ?thesis using v d r by simp
qed

section \<open>Rounding in binary64\<close>

lemma round_even_ge: "of_int N \<le> q \<Longrightarrow> N \<le> round_even q"
  by (auto simp: round_even_def Let_def le_floor_iff) linarith+

lemma round_even_le: "q < of_int N \<Longrightarrow> round_even q \<le> N"
  by (auto simp: round_even_def Let_def floor_less_iff) linarith+

lemma round_even_less_even:
  assumes "even N"
  shows "round_even q < N \<longleftrightarrow> q < of_int N - 1 / 2"
proof -
  define f where "f = \<lfloor>q\<rfloor>"
  have fq: "of_int f \<le> q" "q < of_int f + 1"
    by (simp_all add: f_def)
  have re: "round_even q =
      (if q - of_int f < 1 / 2 then f else if 1 / 2 < q - of_int f then f + 1
       else if even f then f else f + 1)"
    by (simp add: round_even_def Let_def f_def)
  consider "f \<le> N - 2" | "f = N - 1" | "N \<le> f" by linarith
  then show ?thesis
  proof cases
    case 1
    then have "round_even q < N" unfolding re by auto
    moreover have "q < of_int N - 1 / 2" using fq 1 by linarith
    ultimately show ?thesis by simp
  next
    case 2
    then have "odd f" using assms by simp
    then show ?thesis unfolding re using 2 fq by auto
  next
    case 3
    then have "\<not> round_even q < N" unfolding re by auto
    moreover have "\<not> q < of_int N - 1 / 2" using fq 3 by linarith
    ultimately show ?thesis by simp
  qed
qed

lemma expo_bounds:
  assumes "0 < m"
  shows "2 powr (of_int \<lfloor>log 2 m\<rfloor>) \<le> m" "m < 2 powr (of_int \<lfloor>log 2 m\<rfloor> + 1)"
proof -
  have m: "2 powr (log 2 m) = m" using assms by simp
  have "2 powr (of_int \<lfloor>log 2 m\<rfloor>) \<le> 2 powr (log 2 m)"
    by (subst powr_le_cancel_iff) simp_all
  then show "2 powr (of_int \<lfloor>log 2 m\<rfloor>) \<le> m" using m by simp
  have "2 powr (log 2 m) < 2 powr (of_int \<lfloor>log 2 m\<rfloor> + 1)"
    by (subst powr_less_cancel_iff) simp_all
  then show "m < 2 powr (of_int \<lfloor>log 2 m\<rfloor> + 1)" using m by simp
qed

lemma round64_lt5: "\<bar>round64 d\<bar> < 5 \<longleftrightarrow> \<bar>d\<bar> < 5 - 1 / 2 ^ 51"
proof (cases "d = 0")
  case True
  then show ?thesis by (simp add: round64_def)
next
  case False
  define m :: real where "m = \<bar>d\<bar>"
  define e :: int where "e = \<lfloor>log 2 m\<rfloor>"
  define u :: real where "u = 2 powr (of_int e - 52)"
  define R :: int where "R = round_even (m / u)"
  have m0: "0 < m" using False by (simp add: m_def)
  have u0: "0 < u" by (simp add: u_def)
  have lo: "2 powr (of_int e) \<le> m" and hi: "m < 2 powr (of_int e + 1)"
    using expo_bounds [OF m0] by (simp_all add: e_def)
  have "u * 2 powr 52 = 2 powr (of_int e - 52 + 52)"
    unfolding u_def by (rule powr_add [symmetric])
  then have ue: "u * 2 powr 52 = 2 powr (of_int e)" by simp
  have "u * 2 powr 53 = 2 powr (of_int e - 52 + 53)"
    unfolding u_def by (rule powr_add [symmetric])
  then have ue1: "u * 2 powr 53 = 2 powr (of_int e + 1)" by (simp add: add.commute)
  have p52: "(2::real) powr 52 = of_int (2 ^ 52)" and p53: "(2::real) powr 53 = of_int (2 ^ 53)"
    by simp_all
  have qlo: "of_int (2 ^ 52) \<le> m / u"
    using lo ue u0 p52 by (simp add: pos_le_divide_eq mult.commute)
  have qhi: "m / u < of_int (2 ^ 53)"
    using hi ue1 u0 p53 by (simp add: pos_divide_less_eq mult.commute)
  have Rlo: "2 ^ 52 \<le> R" using round_even_ge [OF qlo] by (simp add: R_def)
  have Rhi: "R \<le> 2 ^ 53" using round_even_le [OF qhi] by (simp add: R_def)
  have abs: "\<bar>round64 d\<bar> = of_int R * u"
    using False Rlo u0
    by (simp add: round64_def Let_def m_def [symmetric] e_def [symmetric] u_def [symmetric]
        R_def [symmetric] abs_mult abs_sgn_eq)
  consider "3 \<le> e" | "e = 2" | "e \<le> 1" by linarith
  then show ?thesis
  proof cases
    case 1
    then have "(2::real) powr 3 \<le> 2 powr (of_int e)"
      by (subst powr_le_cancel_iff) simp_all
    then have e8: "8 \<le> (2::real) powr (of_int e)" by simp
    have "2 powr (of_int e) \<le> of_int R * u"
      using Rlo u0 ue [symmetric] p52 by (simp add: mult.commute mult_le_cancel_left_pos)
    then have "\<not> \<bar>round64 d\<bar> < 5" using e8 abs by linarith
    moreover have "\<not> m < 5 - 1 / 2 ^ 51" using lo e8 by simp
    ultimately show ?thesis by (simp add: m_def)
  next
    case 2
    then have u50: "u = 1 / 2 ^ 50"
      by (simp add: u_def powr_minus_divide)
    have "of_int R * u < 5 \<longleftrightarrow> R < 5 * 2 ^ 50"
      unfolding u50 by (simp add: field_simps)
    also have "\<dots> \<longleftrightarrow> m / u < of_int (5 * 2 ^ 50) - 1 / 2"
      unfolding R_def by (rule round_even_less_even) simp
    also have "\<dots> \<longleftrightarrow> m < 5 - 1 / 2 ^ 51"
      unfolding u50 by (simp add: field_simps)
    finally show ?thesis using abs by (simp add: m_def)
  next
    case 3
    then have "(2::real) powr (of_int e + 1) \<le> 2 powr 2"
      by (subst powr_le_cancel_iff) simp_all
    then have e4: "(2::real) powr (of_int e + 1) \<le> 4" by simp
    have "of_int R * u \<le> 2 powr (of_int e + 1)"
      using Rhi u0 ue1 [symmetric] p53 by (simp add: mult.commute mult_le_cancel_left_pos)
    then have "\<bar>round64 d\<bar> < 5" using e4 abs by linarith
    moreover have "m < 5 - 1 / 2 ^ 51" using hi e4 by simp
    ultimately show ?thesis by (simp add: m_def)
  qed
qed

text \<open>The test \<open>Math.abs(u - a) < 5\<close> on finite numbers, in exact terms.\<close>

lemma near_finite:
  "js_lt (js_abs (js_sub (Finite u) (Finite a))) tolerance \<longleftrightarrow> \<bar>u - a\<bar> < 5 - 1 / 2 ^ 51"
proof -
  have big: "(5::real) < 2 ^ 1024" by simp
  show ?thesis
    using round64_lt5 [of "u - a"] big
    by (auto simp: tolerance_def Let_def)
qed

lemma near_iff:
  "js_lt (js_abs (js_sub (or_zero s) c)) tolerance \<longleftrightarrow>
     (case (coordinate_read s, c) of
        (Some u, Finite a) \<Rightarrow> \<bar>u - a\<bar> < 5 - 1 / 2 ^ 51
      | _ \<Rightarrow> False)"
proof (cases c)
  case (Finite a)
  show ?thesis
  proof (cases s)
    case None
    then show ?thesis using near_finite [of 0 a] Finite
      by (simp add: or_zero_def coordinate_read_def)
  next
    case (Some n)
    then show ?thesis using Finite near_finite [of _ a] near_finite [of 0 a]
      by (cases n) (auto simp: or_zero_def coordinate_read_def number_truthy_def tolerance_def)
  qed
next
  case Infinity
  then show ?thesis
    by (cases "or_zero s") (auto simp: tolerance_def split: option.splits)
next
  case NegInfinity
  then show ?thesis
    by (cases "or_zero s") (auto simp: tolerance_def split: option.splits)
next
  case NaN
  then show ?thesis
    by (cases "or_zero s") (auto simp: tolerance_def split: option.splits)
qed

section \<open>The hit test of the floor plan\<close>

lemma scan_find: "scan x y ps = find (\<lambda>p. within_tolerance p x y) ps"
proof (induction ps)
  case Nil
  then show ?case by simp
next
  case (Cons p ps)
  show ?case
  proof (cases "coordinates p")
    case None
    then show ?thesis using Cons by (simp add: within_tolerance_def)
  next
    case (Some c)
    have "(js_lt (js_abs (js_sub (or_zero (coord_x c)) x)) tolerance \<and>
           js_lt (js_abs (js_sub (or_zero (coord_y c)) y)) tolerance) = within_tolerance p x y"
      unfolding near_iff within_tolerance_def Some
      by (auto split: option.splits number.splits)
    then show ?thesis using Cons Some by (simp add: Let_def)
  qed
qed

text \<open>
  Claim C2, as stated, fails: the hit test is not a nearest-point lookup and depends on
  the order of the list. With a pavilion at (4, 4) listed before one at (0, 0), a click at
  (0, 0) selects the first although the second lies exactly at the click; with the list
  reversed the click selects the other pavilion.
\<close>

theorem findPavilionAtPoint_not_nearest:
  "within_tolerance pavA (Finite 0) (Finite 0) \<and> within_tolerance pavB (Finite 0) (Finite 0) \<and>
   coordinates pavA = Some \<lparr>coord_x = Some (Finite 4), coord_y = Some (Finite 4)\<rparr> \<and>
   coordinates pavB = Some \<lparr>coord_x = Some (Finite 0), coord_y = Some (Finite 0)\<rparr> \<and>
   findPavilionAtPoint [pavA, pavB] (Finite 0) (Finite 0) = Some pavA \<and>
   findPavilionAtPoint [pavB, pavA] (Finite 0) (Finite 0) = Some pavB \<and> pavA \<noteq> pavB"
  by (simp add: findPavilionAtPoint_def scan_find within_tolerance_def coordinate_read_def
      pavA_def pavB_def)

text \<open>
  Claim C2, amended. For every click point and every pavilion list, \<open>findPavilionAtPoint\<close>
  returns the first pavilion, in the order of the list, that lies within the fixed
  tolerance of the click as the source computes it in binary64, and \<open>null\<close> when there is
  none.
\<close>

theorem findPavilionAtPoint_first_hit:
  "findPavilionAtPoint ps clickX clickY = find (\<lambda>p. within_tolerance p clickX clickY) ps"
  by (simp add: findPavilionAtPoint_def scan_find)

text \<open>
  Claim C4, as stated, fails in two ways. The source compares the rounded difference:
  for a pavilion stored at (5, 0) and a click at (\<open>2^-52\<close>, 0) both differences are below
  5, yet \<open>5 - 2^-52\<close> rounds to 5 and the result is \<open>null\<close>. And the source reads a missing
  coordinate as 0: a pavilion whose coordinates have only \<open>y = 3\<close> is returned for a click
  at (4.5, 0), although it has no stored \<open>x\<close>.
\<close>

theorem findPavilionAtPoint_boundary:
  "coordinates pavEdge = Some \<lparr>coord_x = Some (Finite 5), coord_y = Some (Finite 0)\<rparr> \<and>
   \<bar>5 - 1 / 2 ^ 52\<bar> < (5::real) \<and> \<bar>0 - 0\<bar> < (5::real) \<and>
   findPavilionAtPoint [pavEdge] (Finite (1 / 2 ^ 52)) (Finite 0) = None \<and>
   coordinates pavNoX = Some \<lparr>coord_x = None, coord_y = Some (Finite 3)\<rparr> \<and>
   findPavilionAtPoint [pavNoX] (Finite 4.5) (Finite 0) = Some pavNoX"
  by (simp add: findPavilionAtPoint_def scan_find within_tolerance_def coordinate_read_def
      pavEdge_def pavNoX_def)

text \<open>
  Claim C4, amended. \<open>findPavilionAtPoint\<close> returns \<open>null\<close> if and only if no pavilion of
  the list has coordinates for which, a missing coordinate counting as 0, both binary64
  differences from a finite click are below the constant 5 in absolute value; in exact
  terms, for which both differences are below \<open>5 - 2^-51\<close>.
\<close>

theorem findPavilionAtPoint_null_iff:
  "findPavilionAtPoint ps clickX clickY = None \<longleftrightarrow>
     \<not> (\<exists>p \<in> set ps. \<exists>c u v a b. coordinates p = Some c \<and>
          coordinate_read (coord_x c) = Some u \<and> coordinate_read (coord_y c) = Some v \<and>
          clickX = Finite a \<and> clickY = Finite b \<and>
          \<bar>u - a\<bar> < 5 - 1 / 2 ^ 51 \<and> \<bar>v - b\<bar> < 5 - 1 / 2 ^ 51)"
proof -
  have w: "within_tolerance p clickX clickY \<longleftrightarrow>
      (\<exists>c u v a b. coordinates p = Some c \<and>
          coordinate_read (coord_x c) = Some u \<and> coordinate_read (coord_y c) = Some v \<and>
          clickX = Finite a \<and> clickY = Finite b \<and>
          \<bar>u - a\<bar> < 5 - 1 / 2 ^ 51 \<and> \<bar>v - b\<bar> < 5 - 1 / 2 ^ 51)" for p
    by (auto simp: within_tolerance_def split: option.splits number.splits)
  show ?thesis unfolding w [symmetric]
    by (auto simp: findPavilionAtPoint_def scan_find find_None_iff)
qed

section \<open>The cache in localStorage\<close>

text \<open>
  Claim C5, as stated, fails in two ways. When \<open>localStorage.setItem\<close> throws,
  \<open>setCacheData\<close> stores nothing, and \<open>getCacheData\<close> right after it gives \<open>null\<close> instead of
  the value. And an entry written at the clock reading 0 never expires, since the source
  takes a timestamp 0 for a missing one.
\<close>

theorem cache_not_always:
  "getCacheData (setCacheData Map.empty True 1000 ''k'' (Some ''v'')) 2000 ''k''
     = (None, Map.empty) \<and>
   (2000::int) - 1000 < CACHE_TIMEOUT \<and>
   getCacheData (setCacheData Map.empty False 0 ''k'' (Some ''v'')) 4000000 ''k''
     = (Some ''v'', setCacheData Map.empty False 0 ''k'' (Some ''v'')) \<and>
   (4000000::int) - 0 > CACHE_TIMEOUT"
  by (simp add: getCacheData_def setCacheData_def setItem_def CACHE_TIMEOUT_def)

text \<open>
  Claim C5, amended. The time to live is the constant one hour. When \<open>localStorage\<close>
  takes the write, the entry is stored with the clock reading of the write, and
  \<open>getCacheData\<close> after \<open>setCacheData\<close> returns the stored value and keeps the entry when less
  than \<open>CACHE_TIMEOUT\<close> has elapsed since the write, and, for a write at a clock reading
  other than 0, returns \<open>null\<close> and removes the entry when more than \<open>CACHE_TIMEOUT\<close> has
  elapsed. When \<open>localStorage\<close> refuses the write, \<open>setCacheData\<close> leaves the storage as it
  was.
\<close>

theorem cache_ttl:
  "CACHE_TIMEOUT = 3600000 \<and>
   (\<not> full \<and> t_read - t_write < CACHE_TIMEOUT \<longrightarrow>
      getCacheData (setCacheData ls full t_write key v) t_read key
        = (v, setCacheData ls full t_write key v)) \<and>
   (\<not> full \<and> t_write \<noteq> 0 \<and> t_read - t_write > CACHE_TIMEOUT \<longrightarrow>
      getCacheData (setCacheData ls full t_write key v) t_read key
        = (None, (setCacheData ls full t_write key v)(CACHE_PREFIX @ key := None))) \<and>
   (\<not> full \<longrightarrow> setCacheData ls full t_write key v (CACHE_PREFIX @ key) = Some (Entry (Some t_write) v)) \<and>
   (full \<longrightarrow> setCacheData ls full t_write key v = ls)"
  by (auto simp: getCacheData_def setCacheData_def setItem_def CACHE_TIMEOUT_def Let_def)

theorem cache_ttl_witness:
  "(1000::int) \<noteq> 0 \<and>
   fst (getCacheData (setCacheData Map.empty False 1000 ''k'' (Some ''v'')) 2000 ''k'') = Some ''v'' \<and>
   getCacheData (setCacheData Map.empty False 1000 ''k'' (Some ''v'')) 4000000 ''k''
     = (None, (setCacheData Map.empty False 1000 ''k'' (Some ''v''))(CACHE_PREFIX @ ''k'' := None)) \<and>
   setCacheData [''x'' \<mapsto> Unparsable] True 1000 ''k'' (Some ''v'') = [''x'' \<mapsto> Unparsable]"
proof -
  have a: "(1000::int) \<noteq> 0" by simp
  have c1: "(2000::int) - 1000 < CACHE_TIMEOUT" by (simp add: CACHE_TIMEOUT_def)
  have c2: "(4000000::int) - 1000 > CACHE_TIMEOUT" by (simp add: CACHE_TIMEOUT_def)
  have r1: "getCacheData (setCacheData Map.empty False 1000 ''k'' (Some ''v'')) 2000 ''k''
      = (Some ''v'', setCacheData Map.empty False 1000 ''k'' (Some ''v''))"
    using cache_ttl [of False 2000 1000 Map.empty "''k''" "Some ''v''"] c1 by blast
  have r2: "getCacheData (setCacheData Map.empty False 1000 ''k'' (Some ''v'')) 4000000 ''k''
      = (None, (setCacheData Map.empty False 1000 ''k'' (Some ''v''))(CACHE_PREFIX @ ''k'' := None))"
    using cache_ttl [of False 4000000 1000 Map.empty "''k''" "Some ''v''"] a c2 by blast
  have r3: "setCacheData [''x'' \<mapsto> Unparsable] True 1000 ''k'' (Some ''v'') = [''x'' \<mapsto> Unparsable]"
    using cache_ttl [of True 0 1000 "[''x'' \<mapsto> Unparsable]" "''k''" "Some ''v''"] by blast
  show ?thesis by (simp only: r1 r2 r3 fst_conv a simp_thms)
qed

section \<open>Activation of the service worker\<close>

lemma fold_delete: "fold caches_delete ns cs = filter (\<lambda>(n, c). n \<notin> set ns) cs"
  by (induction ns arbitrary: cs) (auto simp: caches_delete_def intro: filter_cong)

text \<open>
  Claim C7. Activation deletes exactly the caches whose names start with \<open>apra-shka-\<close> and
  differ from the current cache name: what is left is the list of all other caches, the
  current one among them, each with its name and content as before and in the same order.
\<close>

theorem activate_deletes_stale:
  "activate cs = filter (\<lambda>(n, c). \<not> (startsWith n ''apra-shka-'' \<and> n \<noteq> CACHE_NAME)) cs"
  unfolding activate_def fold_delete
  by (rule filter_cong) (force simp: isCacheStale_def)+

section \<open>The cache-first strategy of the service worker\<close>

text \<open>
  Claim C6. A \<open>GET\<close> request whose path ends with a cacheable extension is answered by
  the cache-first strategy. A cached response, when there is one, is returned with no
  request to the network and no change of the caches; the network is asked exactly on a
  cache miss; and the caches change only by storing a network response of status 200.
\<close>

theorem cacheFirst_spec:
  assumes "req_method rq = ''GET''"
    and "\<exists>ext \<in> set CACHEABLE_EXTENSIONS. endsWith (req_pathname rq) ext"
  shows "fetch_listener rq = CacheFirst \<and>
    (\<forall>c. caches_match (caches st) rq = Some c \<longrightarrow> cacheFirstStrategy st net rq = (c, st)) \<and>
    fetched (snd (cacheFirstStrategy st net rq)) =
      (if caches_match (caches st) rq = None then fetched st @ [rq] else fetched st) \<and>
    (caches (snd (cacheFirstStrategy st net rq)) \<noteq> caches st \<longrightarrow>
       (\<exists>r. caches_match (caches st) rq = None \<and> net rq = Responds r \<and> resp_status r = 200 \<and>
            fst (cacheFirstStrategy st net rq) = r \<and>
            caches (snd (cacheFirstStrategy st net rq)) =
              cache_put CACHE_NAME rq r (caches_open CACHE_NAME (caches st))))"
proof -
  have "fetch_listener rq = CacheFirst"
    using assms by (simp add: fetch_listener_def isStaticAsset_def list_ex_iff)
  moreover have "\<forall>c. caches_match (caches st) rq = Some c \<longrightarrow> cacheFirstStrategy st net rq = (c, st)"
    by (simp add: cacheFirstStrategy_def)
  moreover have "fetched (snd (cacheFirstStrategy st net rq)) =
      (if caches_match (caches st) rq = None then fetched st @ [rq] else fetched st)"
    by (auto simp: cacheFirstStrategy_def Let_def split: option.splits fetch_outcome.splits)
  moreover have "caches (snd (cacheFirstStrategy st net rq)) \<noteq> caches st \<longrightarrow>
       (\<exists>r. caches_match (caches st) rq = None \<and> net rq = Responds r \<and> resp_status r = 200 \<and>
            fst (cacheFirstStrategy st net rq) = r \<and>
            caches (snd (cacheFirstStrategy st net rq)) =
              cache_put CACHE_NAME rq r (caches_open CACHE_NAME (caches st)))"
    by (auto simp: cacheFirstStrategy_def Let_def split: option.splits fetch_outcome.splits)
  ultimately show ?thesis by blast
qed

theorem cacheFirst_spec_witness:
  "req_method appJs = ''GET'' \<and>
   (\<exists>ext \<in> set CACHEABLE_EXTENSIONS. endsWith (req_pathname appJs) ext) \<and>
   fetch_listener appJs = CacheFirst \<and>
   cacheFirstStrategy \<lparr>caches = [(CACHE_NAME, [req_url appJs \<mapsto> okResponse])], fetched = []\<rparr>
       (\<lambda>_. Rejects) appJs
     = (okResponse, \<lparr>caches = [(CACHE_NAME, [req_url appJs \<mapsto> okResponse])], fetched = []\<rparr>) \<and>
   fetched (snd (cacheFirstStrategy \<lparr>caches = [], fetched = []\<rparr> (\<lambda>_. Responds okResponse) appJs))
     = [appJs]"
proof -
  have m: "req_method appJs = ''GET''" by (simp add: appJs_def)
  have e: "\<exists>ext \<in> set CACHEABLE_EXTENSIONS. endsWith (req_pathname appJs) ext"
    by (simp add: appJs_def CACHEABLE_EXTENSIONS_def endsWith_def)
  have hit: "caches_match (caches \<lparr>caches = [(CACHE_NAME, [req_url appJs \<mapsto> okResponse])], fetched = []\<rparr>) appJs
      = Some okResponse"
    by simp
  have miss: "caches_match (caches \<lparr>caches = [], fetched = []\<rparr>) appJs = None"
    by simp
  note a = cacheFirst_spec [OF m e, of "\<lparr>caches = [(CACHE_NAME, [req_url appJs \<mapsto> okResponse])], fetched = []\<rparr>" "\<lambda>_. Rejects"]
  note b = cacheFirst_spec [OF m e, of "\<lparr>caches = [], fetched = []\<rparr>" "\<lambda>_. Responds okResponse"]
  from a hit have 1: "cacheFirstStrategy \<lparr>caches = [(CACHE_NAME, [req_url appJs \<mapsto> okResponse])], fetched = []\<rparr>
       (\<lambda>_. Rejects) appJs
     = (okResponse, \<lparr>caches = [(CACHE_NAME, [req_url appJs \<mapsto> okResponse])], fetched = []\<rparr>)"
    by blast
  from b miss have 2: "fetched (snd (cacheFirstStrategy \<lparr>caches = [], fetched = []\<rparr> (\<lambda>_. Responds okResponse) appJs))
     = [appJs]"
    by simp
  from a have 3: "fetch_listener appJs = CacheFirst" by blast
  show ?thesis using m e 1 2 3 by blast
qed

section \<open>The clock\<close>

lemma tick_fields [simp]:
  "requests (tick w) = requests w" "network (tick w) = network w"
  "pavilions (tick w) = pavilions w" "currentTenant (tick w) = currentTenant w"
  "localStorage (tick w) = localStorage w" "fresh_id (tick w) = fresh_id w"
  "storage_full (tick w) = storage_full w"
  by (auto simp: tick_def split: list.splits)

lemma tick_frame:
  "tick (w\<lparr>requests := r, network := n\<rparr>) = (tick w)\<lparr>requests := r, network := n\<rparr>"
  by (auto simp: tick_def split: list.splits)

lemma writes_tick [simp]: "writes (tick w) = writes w"
  by (simp add: writes_def)

section \<open>Updating and deleting pavilions\<close>

lemma supabaseRequest_frame:
  assumes "supabaseRequest w rq = (r, w')"
  shows "w' = w\<lparr>requests := requests w @ [rq], network := tl (network w)\<rparr>"
  using assms
  by (auto simp: supabaseRequest_def Let_def split: list.splits reply.splits request.splits)


lemma getPavilionById_frame:
  "snd (getPavilionById w pid) = w \<or>
   snd (getPavilionById w pid) =
     w\<lparr>requests := requests w @ [GET (''/rest/v1/'' @ PAVILIONS @ ''?id=eq.'' @ pid @ ''&select=*'')],
       network := tl (network w)\<rparr>"
proof (cases "pavilions w")
  case None
  then show ?thesis by (simp add: getPavilionById_def getPavilionById_try_def)
next
  case (Some ps)
  show ?thesis
  proof (cases "find (\<lambda>p. id_pav p = pid) ps")
    case (Some p)
    then show ?thesis using \<open>pavilions w = Some ps\<close>
      by (simp add: getPavilionById_def getPavilionById_try_def)
  next
    case None
    let ?rq = "GET (''/rest/v1/'' @ PAVILIONS @ ''?id=eq.'' @ pid @ ''&select=*'')"
    obtain r w1 where sr: "supabaseRequest w ?rq = (r, w1)" by (cases "supabaseRequest w ?rq")
    then have "w1 = w\<lparr>requests := requests w @ [?rq], network := tl (network w)\<rparr>"
      by (rule supabaseRequest_frame)
    moreover have "snd (getPavilionById w pid) = w1"
      using None \<open>pavilions w = Some ps\<close> sr
      by (auto simp: getPavilionById_def getPavilionById_try_def
          split: sum.splits option.splits list.splits)
    ultimately show ?thesis by simp
  qed
qed

lemma getPavilionById_keeps:
  "pavilions (snd (getPavilionById w pid)) = pavilions w \<and>
   writes (snd (getPavilionById w pid)) = writes w \<and>
   currentTenant (snd (getPavilionById w pid)) = currentTenant w \<and>
   localStorage (snd (getPavilionById w pid)) = localStorage w \<and>
   date_iso (snd (getPavilionById w pid)) = date_iso w \<and>
   fresh_id (snd (getPavilionById w pid)) = fresh_id w \<and>
   tick (snd (getPavilionById w pid)) = (tick w)\<lparr>requests := requests (snd (getPavilionById w pid)),
                                                network := network (snd (getPavilionById w pid))\<rparr>"
  using getPavilionById_frame [of w pid] by (auto simp: writes_def tick_frame)

lemma updatePavilion_refused:
  assumes "refused w pid"
  shows "isl (fst (updatePavilion w pid data)) \<and>
         writes (snd (updatePavilion w pid data)) = writes w \<and>
         pavilions (snd (updatePavilion w pid data)) = pavilions w"
proof (cases "currentTenant w")
  case None
  then show ?thesis by (simp add: updatePavilion_def)
next
  case (Some t)
  obtain r w1 where g: "getPavilionById w pid = (r, w1)" by (cases "getPavilionById w pid")
  have k: "pavilions w1 = pavilions w \<and> writes w1 = writes w"
    using getPavilionById_keeps [of w pid] g by simp
  show ?thesis
  proof (cases r)
    case None
    then show ?thesis using Some g k by (simp add: updatePavilion_def)
  next
    case (Some p)
    then have "tenant_id p \<noteq> id_ten t"
      using assms \<open>currentTenant w = Some t\<close> g by (auto simp: refused_def)
    then show ?thesis using Some \<open>currentTenant w = Some t\<close> g k by (simp add: updatePavilion_def)
  qed
qed

lemma deletePavilion_refused:
  assumes "refused w pid"
  shows "isl (fst (deletePavilion w pid)) \<and>
         writes (snd (deletePavilion w pid)) = writes w \<and>
         pavilions (snd (deletePavilion w pid)) = pavilions w"
proof (cases "currentTenant w")
  case None
  then show ?thesis by (simp add: deletePavilion_def)
next
  case (Some t)
  obtain r w1 where g: "getPavilionById w pid = (r, w1)" by (cases "getPavilionById w pid")
  have k: "pavilions w1 = pavilions w \<and> writes w1 = writes w"
    using getPavilionById_keeps [of w pid] g by simp
  show ?thesis
  proof (cases r)
    case None
    then show ?thesis using Some g k by (simp add: deletePavilion_def)
  next
    case (Some p)
    then have "tenant_id p \<noteq> id_ten t"
      using assms \<open>currentTenant w = Some t\<close> g by (auto simp: refused_def)
    then show ?thesis using Some \<open>currentTenant w = Some t\<close> g k by (simp add: deletePavilion_def)
  qed
qed

lemma updatePavilion_allowed:
  assumes "\<not> refused w pid"
  shows "writes (snd (updatePavilion w pid data)) =
           writes w @ [PATCH (''/rest/v1/'' @ PAVILIONS @ ''?id=eq.'' @ pid)
                         (obj_set ''updated_at'' (JStr (date_iso w)) (spread [] data))]"
proof -
  from assms obtain t p where t: "currentTenant w = Some t"
    and p: "fst (getPavilionById w pid) = Some p" and own: "tenant_id p = id_ten t"
    by (auto simp: refused_def)
  obtain w1 where g: "getPavilionById w pid = (Some p, w1)"
    using p by (cases "getPavilionById w pid") simp
  have k: "writes w1 = writes w \<and> date_iso w1 = date_iso w"
    using getPavilionById_keeps [of w pid] g by simp
  let ?rq = "PATCH (''/rest/v1/'' @ PAVILIONS @ ''?id=eq.'' @ pid)
                         (obj_set ''updated_at'' (JStr (date_iso w1)) (spread [] data))"
  obtain r w2 where sr: "supabaseRequest (tick w1) ?rq = (r, w2)"
    by (cases "supabaseRequest (tick w1) ?rq")
  then have w2: "w2 = (tick w1)\<lparr>requests := requests w1 @ [?rq], network := tl (network w1)\<rparr>"
    using supabaseRequest_frame [of "tick w1" ?rq r w2] by simp
  have "writes (snd (updatePavilion w pid data)) = writes w2"
    using t g own sr
    by (auto simp: updatePavilion_def Let_def writes_def split: sum.splits option.splits list.splits)
  then show ?thesis using w2 k by (simp add: writes_def)
qed

lemma deletePavilion_allowed:
  assumes "\<not> refused w pid"
  shows "writes (snd (deletePavilion w pid)) =
           writes w @ [DELETE (''/rest/v1/'' @ PAVILIONS @ ''?id=eq.'' @ pid)]"
proof -
  from assms obtain t p where t: "currentTenant w = Some t"
    and p: "fst (getPavilionById w pid) = Some p" and own: "tenant_id p = id_ten t"
    by (auto simp: refused_def)
  obtain w1 where g: "getPavilionById w pid = (Some p, w1)"
    using p by (cases "getPavilionById w pid") simp
  have k: "writes w1 = writes w"
    using getPavilionById_keeps [of w pid] g by simp
  let ?rq = "DELETE (''/rest/v1/'' @ PAVILIONS @ ''?id=eq.'' @ pid)"
  obtain r w2 where sr: "supabaseRequest w1 ?rq = (r, w2)" by (cases "supabaseRequest w1 ?rq")
  then have w2: "w2 = w1\<lparr>requests := requests w1 @ [?rq], network := tl (network w1)\<rparr>"
    by (rule supabaseRequest_frame)
  have "writes (snd (deletePavilion w pid)) = writes w2"
    using t g own sr
    by (auto simp: deletePavilion_def Let_def writes_def split: sum.splits option.splits list.splits)
  then show ?thesis using w2 k by (simp add: writes_def)
qed

text \<open>
  Claim C3. Whenever no tenant is authenticated, the pavilion is not found, or the
  pavilion's \<open>tenant_id\<close> differs from the current tenant's id, \<open>updatePavilion\<close> and
  \<open>deletePavilion\<close> throw, send no writing request and leave the in-memory list of
  pavilions as it is. A writing request is sent only when all three checks pass, and then
  it is the \<open>PATCH\<close>, respectively the \<open>DELETE\<close>, of this pavilion.
\<close>

theorem own_pavilions_only:
  "(refused w pid \<longrightarrow>
      isl (fst (updatePavilion w pid data)) \<and>
      writes (snd (updatePavilion w pid data)) = writes w \<and>
      pavilions (snd (updatePavilion w pid data)) = pavilions w \<and>
      isl (fst (deletePavilion w pid)) \<and>
      writes (snd (deletePavilion w pid)) = writes w \<and>
      pavilions (snd (deletePavilion w pid)) = pavilions w) \<and>
   (writes (snd (updatePavilion w pid data)) \<noteq> writes w \<longrightarrow> \<not> refused w pid) \<and>
   (writes (snd (deletePavilion w pid)) \<noteq> writes w \<longrightarrow> \<not> refused w pid) \<and>
   (\<not> refused w pid \<longrightarrow>
      writes (snd (updatePavilion w pid data)) =
        writes w @ [PATCH (''/rest/v1/pavilions?id=eq.'' @ pid)
                      (obj_set ''updated_at'' (JStr (date_iso w)) (spread [] data))] \<and>
      writes (snd (deletePavilion w pid)) =
        writes w @ [DELETE (''/rest/v1/pavilions?id=eq.'' @ pid)])"
  using updatePavilion_refused [of w pid data] deletePavilion_refused [of w pid]
    updatePavilion_allowed [of w pid data] deletePavilion_allowed [of w pid]
  by (auto simp: PAVILIONS_def)

theorem own_pavilions_only_witness:
  "refused (world0\<lparr>currentTenant := Some tenantB\<rparr>) ''a'' \<and>
   isl (fst (updatePavilion (world0\<lparr>currentTenant := Some tenantB\<rparr>) ''a'' [])) \<and>
   writes (snd (updatePavilion (world0\<lparr>currentTenant := Some tenantB\<rparr>) ''a'' [])) = [] \<and>
   \<not> refused world0 ''a'' \<and>
   writes (snd (deletePavilion world0 ''a'')) = [DELETE ''/rest/v1/pavilions?id=eq.a'']"
proof -
  have g: "getPavilionById (world0\<lparr>currentTenant := Some tenantB\<rparr>) ''a''
             = (Some pavA, world0\<lparr>currentTenant := Some tenantB\<rparr>)"
    by (simp add: getPavilionById_def getPavilionById_try_def world0_def pavA_def)
  have g0: "getPavilionById world0 ''a'' = (Some pavA, world0)"
    by (simp add: getPavilionById_def getPavilionById_try_def world0_def pavA_def)
  have r: "refused (world0\<lparr>currentTenant := Some tenantB\<rparr>) ''a''"
    by (simp add: refused_def g) (simp add: world0_def pavA_def tenantB_def)
  have n: "\<not> refused world0 ''a''"
    by (simp add: refused_def g0) (simp add: world0_def pavA_def tenantA_def)
  have w: "writes (world0\<lparr>currentTenant := Some tenantB\<rparr>) = []" "writes world0 = []"
    by (simp_all add: writes_def world0_def)
  note a = own_pavilions_only [of "world0\<lparr>currentTenant := Some tenantB\<rparr>" "''a''" "[]"]
  note b = own_pavilions_only [of world0 "''a''" "[]"]
  from a r w have 1: "isl (fst (updatePavilion (world0\<lparr>currentTenant := Some tenantB\<rparr>) ''a'' []))"
    and 2: "writes (snd (updatePavilion (world0\<lparr>currentTenant := Some tenantB\<rparr>) ''a'' [])) = []"
    by simp_all
  from b n w have 3: "writes (snd (deletePavilion world0 ''a'')) = [DELETE ''/rest/v1/pavilions?id=eq.a'']"
    by simp
  show ?thesis using r n 1 2 3 by blast
qed

section \<open>Loading all pavilions\<close>

lemma getAllPavilions_total: "\<exists>r. fst (getAllPavilions w) = Inr r"
  by (cases "getAllPavilions_try w") (auto simp: getAllPavilions_def split: sum.splits)

lemma getAllPavilions_fresh:
  assumes "localStorage w (CACHE_PREFIX @ ''pavilions'') = Some (Entry (Some t) (Some c))"
    and "date_now w - t \<le> CACHE_TIMEOUT"
  shows "fst (getAllPavilions w) = Inr (Some c) \<and>
         requests (snd (getAllPavilions w)) = requests w"
proof -
  have "getCacheData (localStorage w) (date_now w) ''pavilions'' = (Some c, localStorage w)"
    using assms by (simp add: getCacheData_def Let_def)
  then show ?thesis
    by (simp add: getAllPavilions_def getAllPavilions_try_def)
qed

lemma getAllPavilions_offline:
  assumes "fst (getCacheData (localStorage w) (date_now w) ''pavilions'') = None"
    and "request_fails w"
  shows "fst (getAllPavilions w) = Inr (pavilions w) \<and>
         pavilions (snd (getAllPavilions w)) = pavilions w"
proof -
  obtain ls where c: "getCacheData (localStorage w) (date_now w) ''pavilions'' = (None, ls)"
    using assms(1) by (cases "getCacheData (localStorage w) (date_now w) ''pavilions''") simp
  let ?w = "(tick w)\<lparr>localStorage := ls\<rparr>"
  let ?rq = "GET (''/rest/v1/'' @ PAVILIONS @ ''?select=*'')"
  have "\<exists>e. supabaseRequest ?w ?rq
           = (Inl e, ?w\<lparr>requests := requests ?w @ [?rq], network := tl (network ?w)\<rparr>)"
    using assms(2)
    by (auto simp: supabaseRequest_def request_fails_def Let_def split: list.splits reply.splits)
  then show ?thesis using c
    by (auto simp: getAllPavilions_def getAllPavilions_try_def)
qed

text \<open>
  Claim C10. \<open>getAllPavilions\<close> never throws. When the cache holds a list that is not
  older than \<open>CACHE_TIMEOUT\<close>, it returns this list and sends no request. When the cache
  gives nothing and the request fails, it returns the in-memory list of pavilions, which
  stays as it is.
\<close>

theorem getAllPavilions_never_throws:
  "(\<exists>r. fst (getAllPavilions w) = Inr r) \<and>
   (\<forall>t c. localStorage w (CACHE_PREFIX @ ''pavilions'') = Some (Entry (Some t) (Some c)) \<and>
          date_now w - t \<le> CACHE_TIMEOUT \<longrightarrow>
          fst (getAllPavilions w) = Inr (Some c) \<and>
          requests (snd (getAllPavilions w)) = requests w) \<and>
   (fst (getCacheData (localStorage w) (date_now w) ''pavilions'') = None \<and> request_fails w \<longrightarrow>
          fst (getAllPavilions w) = Inr (pavilions w) \<and>
          pavilions (snd (getAllPavilions w)) = pavilions w)"
  using getAllPavilions_total [of w] getAllPavilions_offline [of w]
  by (auto simp: getAllPavilions_fresh)

theorem getAllPavilions_never_throws_witness:
  "request_fails world0 \<and>
   fst (getCacheData (localStorage world0) (date_now world0) ''pavilions'') = None \<and>
   fst (getAllPavilions world0) = Inr (Some [pavA, pavB]) \<and>
   fst (getAllPavilions
          (world0\<lparr>localStorage := [CACHE_PREFIX @ ''pavilions'' \<mapsto>
                                     Entry (Some 1699999999000) (Some [pavB])]\<rparr>))
     = Inr (Some [pavB])"
proof -
  have f: "request_fails world0" by (simp add: request_fails_def world0_def)
  have m: "fst (getCacheData (localStorage world0) (date_now world0) ''pavilions'') = None"
    by (simp add: getCacheData_def world0_def)
  let ?w = "world0\<lparr>localStorage := [CACHE_PREFIX @ ''pavilions'' \<mapsto>
                                     Entry (Some 1699999999000) (Some [pavB])]\<rparr>"
  have h: "localStorage ?w (CACHE_PREFIX @ ''pavilions'') = Some (Entry (Some 1699999999000) (Some [pavB]))
      \<and> date_now ?w - 1699999999000 \<le> CACHE_TIMEOUT"
    by (simp add: world0_def CACHE_TIMEOUT_def)
  have p: "pavilions world0 = Some [pavA, pavB]" by (simp add: world0_def)
  from getAllPavilions_never_throws [of world0] f m p
  have 1: "fst (getAllPavilions world0) = Inr (Some [pavA, pavB])" by simp
  from getAllPavilions_never_throws [of ?w] h
  have 2: "fst (getAllPavilions ?w) = Inr (Some [pavB])" by blast
  show ?thesis using f m 1 2 by blast
qed

section \<open>Discounts\<close>





























end
